theory Spec2Isabelle
  imports Main "HOL-Library.Multiset" "HOL-Library.Product_Lexorder"
begin

section \<open>Salon reservation API: values\<close>

text \<open>
  The service is a FastAPI application (\<^verbatim>\<open>main.py\<close>) whose whole state lives in one
  table of a hosted relational store. This theory embeds the request models with their
  field validators, the conflict checker, and the five endpoint functions.

  A Python \<^verbatim>\<open>str\<close> is modelled as a list of characters. A \<^verbatim>\<open>datetime.date\<close> is the
  triple (year, month, day) and a \<^verbatim>\<open>datetime.time\<close> the triple (hour, minute, second);
  both are compared lexicographically, as Python compares them. The code sends every time
  to the store through \<^verbatim>\<open>strftime("%H:%M:%S")\<close> and reads it back with
  \<^verbatim>\<open>time.fromisoformat\<close>, so second resolution is all the store ever sees; the two
  conversions are the identity on these triples. Dates cross the same way; the one place
  where the code reads back a date text it wrote itself is the modify endpoint, and that
  round trip is modelled there.
\<close>

type_synonym uuid = nat
type_synonym date = "nat \<times> nat \<times> nat"
type_synonym time = "nat \<times> nat \<times> nat"

datatype ReservationStatus = SCHEDULED | COMPLETED | CANCELLED

definition DEFAULT_DURATION_MINUTES :: int where
  "DEFAULT_DURATION_MINUTES = 60"

text \<open>A value of a JSON request body, as a \<^verbatim>\<open>mode="before"\<close> validator receives it.\<close>

datatype json = JNull | JBool bool | JNum int | JStr string

subsection \<open>Python string primitives used by the validators\<close>

text \<open>
  \<^verbatim>\<open>s.split(sep)\<close> for a one-character separator: the pieces between the
  separators, never an empty list (\<^verbatim>\<open>"".split(":") == [""]\<close>).
\<close>

fun str_split :: "char \<Rightarrow> string \<Rightarrow> string list" where
  "str_split sep [] = [[]]"
| "str_split sep (c # cs) =
     (if c = sep then [] # str_split sep cs
      else (c # hd (str_split sep cs)) # tl (str_split sep cs))"

text \<open>
  \<^verbatim>\<open>s.zfill(width)\<close>: a string at least \<^verbatim>\<open>width\<close> long is returned as it is;
  otherwise zeros are put in front, after a leading sign character if there is one.
\<close>

definition zfill :: "string \<Rightarrow> nat \<Rightarrow> string" where
  "zfill s width =
     (if length s \<ge> width then s
      else (case s of
              [] \<Rightarrow> replicate width (CHR ''0'')
            | c # cs \<Rightarrow>
                if c = CHR ''+'' \<or> c = CHR ''-''
                then c # replicate (width - length s) (CHR ''0'') @ cs
                else replicate (width - length s) (CHR ''0'') @ s))"

subsection \<open>Field validators\<close>

text \<open>\<^verbatim>\<open>ReservationCreate.normalize_time\<close> (runs before the field is parsed as a time).\<close>

definition ReservationCreate_normalize_time :: "json \<Rightarrow> json" where
  "ReservationCreate_normalize_time v =
     (case v of
        JStr s \<Rightarrow>
          (case str_split (CHR '':'') s of
             [hour, minute] \<Rightarrow> JStr (zfill hour 2 @ '':'' @ minute @ '':00'')
           | [hour, minute, second] \<Rightarrow> JStr (zfill hour 2 @ '':'' @ minute @ '':'' @ second)
           | _ \<Rightarrow> v)
      | _ \<Rightarrow> v)"

text \<open>\<^verbatim>\<open>ReservationUpdate.normalize_time\<close>: the same body, written a second time in the source.\<close>

definition ReservationUpdate_normalize_time :: "json \<Rightarrow> json" where
  "ReservationUpdate_normalize_time v =
     (case v of
        JStr s \<Rightarrow>
          (case str_split (CHR '':'') s of
             [hour, minute] \<Rightarrow> JStr (zfill hour 2 @ '':'' @ minute @ '':00'')
           | [hour, minute, second] \<Rightarrow> JStr (zfill hour 2 @ '':'' @ minute @ '':'' @ second)
           | _ \<Rightarrow> v)
      | _ \<Rightarrow> v)"

text \<open>
  \<^verbatim>\<open>validate_duration\<close>: \<^verbatim>\<open>None\<close> of the model is the raised \<^verbatim>\<open>ValueError\<close>.
  On the update model the field is optional and an absent value passes.
\<close>

definition ReservationCreate_validate_duration :: "int \<Rightarrow> int option" where
  "ReservationCreate_validate_duration v = (if v \<le> 0 then None else Some v)"

definition ReservationUpdate_validate_duration :: "int option \<Rightarrow> int option option" where
  "ReservationUpdate_validate_duration v =
     (if v \<noteq> None \<and> the v \<le> 0 then None else Some v)"

text \<open>
  The four shapes the specification names, read literally: \<open>H\<close>, \<open>M\<close> and \<open>S\<close> are
  decimal digits. These predicates follow the specification's wording, not the code.
\<close>

definition is_digit :: "char \<Rightarrow> bool" where
  "is_digit c = (c \<in> set ''0123456789'')"

fun shape_H_MM :: "string \<Rightarrow> bool" where
  "shape_H_MM [h, c, m1, m2] = (is_digit h \<and> c = CHR '':'' \<and> is_digit m1 \<and> is_digit m2)"
| "shape_H_MM _ = False"

fun shape_HH_MM :: "string \<Rightarrow> bool" where
  "shape_HH_MM [h1, h2, c, m1, m2] =
     (is_digit h1 \<and> is_digit h2 \<and> c = CHR '':'' \<and> is_digit m1 \<and> is_digit m2)"
| "shape_HH_MM _ = False"

fun shape_H_MM_SS :: "string \<Rightarrow> bool" where
  "shape_H_MM_SS [h, c, m1, m2, d, s1, s2] =
     (is_digit h \<and> c = CHR '':'' \<and> is_digit m1 \<and> is_digit m2 \<and> d = CHR '':''
      \<and> is_digit s1 \<and> is_digit s2)"
| "shape_H_MM_SS _ = False"

fun shape_HH_MM_SS :: "string \<Rightarrow> bool" where
  "shape_HH_MM_SS [h1, h2, c, m1, m2, d, s1, s2] =
     (is_digit h1 \<and> is_digit h2 \<and> c = CHR '':'' \<and> is_digit m1 \<and> is_digit m2 \<and> d = CHR '':''
      \<and> is_digit s1 \<and> is_digit s2)"
| "shape_HH_MM_SS _ = False"

definition time_shape :: "string \<Rightarrow> bool" where
  "time_shape s = (shape_H_MM s \<or> shape_HH_MM s \<or> shape_H_MM_SS s \<or> shape_HH_MM_SS s)"

section \<open>The reservations table\<close>

text \<open>
  One row of the table \<^verbatim>\<open>salon_reservations\<close>. The response model
  \<^verbatim>\<open>ReservationResponse\<close> has the same twelve fields and every endpoint fills it
  field by field from a row, so a response is modelled by the row itself.
\<close>

record reservation =
  reservation_id :: uuid
  customer_name :: string
  phone_number :: string
  reservation_date :: date
  reservation_time :: time
  stylist_name :: string
  service_menu :: string
  duration_minutes :: int
  status :: ReservationStatus
  "notes" :: "string option"
  created_at :: string
  updated_at :: string

type_synonym table = "reservation list"
type_synonym ReservationResponse = reservation

text \<open>
  The store is an external collaborator; the code only relies on the contract the
  specification gives for it: a table keyed by a unique identifier, with equality
  filters, ordering, insert returning the inserted row and update-by-key returning the
  updated rows. The store itself chooses the identifier and the timestamps of a new
  row, and may refresh \<^verbatim>\<open>updated_at\<close> on an update; both choices are parameters here.
  An insert under a key that is already present is refused by the store (the client
  raises), which is \<^verbatim>\<open>None\<close>. Runs in which the connection to the store fails are
  outside this model: in every endpoint they end in the 500 response of the enclosing
  \<^verbatim>\<open>except\<close> clause.
\<close>

definition table_insert :: "table \<Rightarrow> reservation \<Rightarrow> (table \<times> reservation list) option" where
  "table_insert tbl row =
     (if reservation_id row \<in> set (map reservation_id tbl) then None
      else Some (tbl @ [row], [row]))"

definition table_update ::
  "table \<Rightarrow> (reservation \<Rightarrow> reservation) \<Rightarrow> uuid \<Rightarrow> string \<Rightarrow> table \<times> reservation list" where
  "table_update tbl f rid now =
     (let tbl' = map (\<lambda>r. if reservation_id r = rid then (f r)\<lparr>updated_at := now\<rparr> else r) tbl
      in (tbl', filter (\<lambda>r. reservation_id r = rid) tbl'))"

datatype http_error =
    HTTP_404_NOT_FOUND
  | HTTP_409_CONFLICT
  | HTTP_422_UNPROCESSABLE_ENTITY
  | HTTP_500_INTERNAL_SERVER_ERROR

fun status_code :: "http_error \<Rightarrow> nat" where
  "status_code HTTP_404_NOT_FOUND = 404"
| "status_code HTTP_409_CONFLICT = 409"
| "status_code HTTP_422_UNPROCESSABLE_ENTITY = 422"
| "status_code HTTP_500_INTERNAL_SERVER_ERROR = 500"

section \<open>Request models\<close>

record ReservationCreate =
  c_customer_name :: string
  c_phone_number :: string
  c_reservation_date :: date
  c_reservation_time :: time
  c_stylist_name :: string
  c_service_menu :: string
  c_duration_minutes :: int
  c_notes :: "string option"

record ReservationUpdate =
  u_reservation_date :: "date option"
  u_reservation_time :: "time option"
  u_stylist_name :: "string option"
  u_service_menu :: "string option"
  u_duration_minutes :: "int option"
  u_notes :: "string option"

record ReservationCreateResponse =
  message :: string
  created_id :: uuid
  reservation :: ReservationResponse

record AvailabilityResponse =
  a_date :: date
  a_stylist_name :: string
  booked_slots :: "time list"
  available_slots :: "time list"

text \<open>
  A request body before validation. The fields without a validator of their own are
  taken after the framework's type coercion; \<^verbatim>\<open>reservation_time\<close> is the raw JSON value
  that \<^verbatim>\<open>normalize_time\<close> receives, and an omitted \<^verbatim>\<open>duration_minutes\<close> is \<^verbatim>\<open>None\<close>.
  How the framework parses a normalized value into a \<^verbatim>\<open>time\<close> is not part of this
  repository: the parser is the parameter \<open>parse_time\<close> wherever a body is validated.
\<close>

record CreateBody =
  b_customer_name :: string
  b_phone_number :: string
  b_reservation_date :: date
  b_reservation_time :: json
  b_stylist_name :: string
  b_service_menu :: string
  b_duration_minutes :: "int option"
  b_notes :: "string option"

record UpdateBody =
  ub_reservation_date :: "date option"
  ub_reservation_time :: "json option"
  ub_stylist_name :: "string option"
  ub_service_menu :: "string option"
  ub_duration_minutes :: "int option"
  ub_notes :: "string option"

text \<open>
  Building the model object: the default duration is not validated, a supplied one goes
  through \<^verbatim>\<open>validate_duration\<close>; the time goes through \<^verbatim>\<open>normalize_time\<close> and then the
  parser. Any failing field makes the whole validation fail (\<^verbatim>\<open>None\<close>).
\<close>

definition validate_ReservationCreate ::
  "(json \<Rightarrow> time option) \<Rightarrow> CreateBody \<Rightarrow> ReservationCreate option" where
  "validate_ReservationCreate parse_time body =
     (case (case b_duration_minutes body of
              None \<Rightarrow> Some DEFAULT_DURATION_MINUTES
            | Some v \<Rightarrow> ReservationCreate_validate_duration v,
            parse_time (ReservationCreate_normalize_time (b_reservation_time body))) of
        (Some d, Some t) \<Rightarrow>
          Some \<lparr> c_customer_name = b_customer_name body,
                 c_phone_number = b_phone_number body,
                 c_reservation_date = b_reservation_date body,
                 c_reservation_time = t,
                 c_stylist_name = b_stylist_name body,
                 c_service_menu = b_service_menu body,
                 c_duration_minutes = d,
                 c_notes = b_notes body \<rparr>
      | _ \<Rightarrow> None)"

definition validate_ReservationUpdate ::
  "(json \<Rightarrow> time option) \<Rightarrow> UpdateBody \<Rightarrow> ReservationUpdate option" where
  "validate_ReservationUpdate parse_time body =
     (case (ReservationUpdate_validate_duration (ub_duration_minutes body),
            (case ub_reservation_time body of
               None \<Rightarrow> Some None
             | Some v \<Rightarrow>
                 (case ReservationUpdate_normalize_time v of
                    JNull \<Rightarrow> Some None
                  | v' \<Rightarrow> map_option Some (parse_time v')))) of
        (Some d, Some t) \<Rightarrow>
          Some \<lparr> u_reservation_date = ub_reservation_date body,
                 u_reservation_time = t,
                 u_stylist_name = ub_stylist_name body,
                 u_service_menu = ub_service_menu body,
                 u_duration_minutes = d,
                 u_notes = ub_notes body \<rparr>
      | _ \<Rightarrow> None)"

section \<open>Conflict checker and slot universe\<close>

definition check_availability_conflict ::
  "table \<Rightarrow> string \<Rightarrow> date \<Rightarrow> time \<Rightarrow> uuid option \<Rightarrow> bool" where
  "check_availability_conflict tbl stylist d t exclude_id =
     (let query = filter (\<lambda>r. stylist_name r = stylist \<and> reservation_date r = d
                              \<and> reservation_time r = t \<and> status r = SCHEDULED) tbl;
          query = (case exclude_id of
                     Some e \<Rightarrow> filter (\<lambda>r. reservation_id r \<noteq> e) query
                   | None \<Rightarrow> query)
      in length query > 0)"

definition get_all_hours_in_day :: "time list" where
  "get_all_hours_in_day = map (\<lambda>hour. (hour, 0, 0)) [9..<17]"

section \<open>Endpoints\<close>

text \<open>
  Every endpoint takes the table and returns the table it leaves behind together with
  either an HTTP error or the success payload. \<open>new_id\<close> and \<open>now\<close> are the store's
  choices for the row being written.
\<close>

text \<open>
  The row an insert of \<^verbatim>\<open>reservation_data\<close> produces: the nine columns the endpoint
  sends, and the key and the two timestamps the store adds.
\<close>

definition reservation_data :: "ReservationCreate \<Rightarrow> uuid \<Rightarrow> string \<Rightarrow> reservation" where
  "reservation_data req new_id now =
     \<lparr> reservation_id = new_id,
       customer_name = c_customer_name req,
       phone_number = c_phone_number req,
       reservation_date = c_reservation_date req,
       reservation_time = c_reservation_time req,
       stylist_name = c_stylist_name req,
       service_menu = c_service_menu req,
       duration_minutes = c_duration_minutes req,
       status = SCHEDULED,
       notes = c_notes req,
       created_at = now,
       updated_at = now \<rparr>"

definition create_reservation ::
  "table \<Rightarrow> ReservationCreate \<Rightarrow> uuid \<Rightarrow> string
    \<Rightarrow> table \<times> (http_error + ReservationCreateResponse)" where
  "create_reservation tbl req new_id now =
     (if check_availability_conflict tbl (c_stylist_name req) (c_reservation_date req)
           (c_reservation_time req) None
      then (tbl, Inl HTTP_409_CONFLICT)
      else
        (case table_insert tbl (reservation_data req new_id now) of
           None \<Rightarrow> (tbl, Inl HTTP_500_INTERNAL_SERVER_ERROR)
         | Some (tbl', []) \<Rightarrow> (tbl', Inl HTTP_500_INTERNAL_SERVER_ERROR)
         | Some (tbl', reservation_record # _) \<Rightarrow>
             (tbl', Inr \<lparr> message = ''Reservation created successfully for ''
                                        @ c_customer_name req,
                          created_id = reservation_id reservation_record,
                          reservation = reservation_record \<rparr>)))"

definition lookup_reservations :: "table \<Rightarrow> string \<Rightarrow> http_error + ReservationResponse list" where
  "lookup_reservations tbl phone =
     (let data = sort_key (\<lambda>r. (reservation_date r, reservation_time r))
                   (filter (\<lambda>r. phone_number r = phone \<and> status r = SCHEDULED) tbl)
      in if data = [] then Inl HTTP_404_NOT_FOUND else Inr data)"

text \<open>The dictionary \<^verbatim>\<open>update_data\<close>, applied to a row: only the keys put into it change.\<close>

definition apply_update_data :: "ReservationUpdate \<Rightarrow> reservation \<Rightarrow> reservation" where
  "apply_update_data updates r =
     r\<lparr> reservation_date :=
           (case u_reservation_date updates of Some v \<Rightarrow> v | None \<Rightarrow> reservation_date r),
        reservation_time :=
           (case u_reservation_time updates of Some v \<Rightarrow> v | None \<Rightarrow> reservation_time r),
        stylist_name :=
           (case u_stylist_name updates of Some v \<Rightarrow> v | None \<Rightarrow> stylist_name r),
        service_menu :=
           (case u_service_menu updates of Some v \<Rightarrow> v | None \<Rightarrow> service_menu r),
        duration_minutes :=
           (case u_duration_minutes updates of Some v \<Rightarrow> v | None \<Rightarrow> duration_minutes r),
        notes :=
           (case u_notes updates of Some v \<Rightarrow> Some v | None \<Rightarrow> notes r) \<rparr>"

text \<open>
  The modify endpoint turns a supplied date into text with \<^verbatim>\<open>strftime("%Y-%m-%d")\<close> and,
  a few lines on, reads that text back with \<^verbatim>\<open>date.fromisoformat\<close> for the conflict
  check. \<^verbatim>\<open>%Y\<close> writes the year without padding and \<^verbatim>\<open>fromisoformat\<close> reads a year of
  four digits only, so for a year below 1000 the second step raises \<^verbatim>\<open>ValueError\<close>, which
  is \<^verbatim>\<open>None\<close> here; otherwise the date comes back as it was. A date of the stored row
  arrives as the store's own text, which \<^verbatim>\<open>fromisoformat\<close> reads.
\<close>

definition date_fromisoformat_strftime :: "date \<Rightarrow> date option" where
  "date_fromisoformat_strftime d = (if fst d < 1000 then None else Some d)"

text \<open>An update request whose supplied date does not survive that round trip.\<close>

definition supplied_date_unreadable :: "ReservationUpdate \<Rightarrow> bool" where
  "supplied_date_unreadable updates =
     (case u_reservation_date updates of
        Some v \<Rightarrow> date_fromisoformat_strftime v = None
      | None \<Rightarrow> False)"

text \<open>
  The \<^verbatim>\<open>ValueError\<close> is caught by the endpoint's \<^verbatim>\<open>except Exception\<close> and answered 500,
  after the existence check and before the conflict check.
\<close>

definition modify_reservation ::
  "table \<Rightarrow> uuid \<Rightarrow> ReservationUpdate \<Rightarrow> string \<Rightarrow> table \<times> (http_error + ReservationResponse)" where
  "modify_reservation tbl rid updates now =
     (case filter (\<lambda>r. reservation_id r = rid) tbl of
        [] \<Rightarrow> (tbl, Inl HTTP_404_NOT_FOUND)
      | existing_record # _ \<Rightarrow>
          (case (case u_reservation_date updates of
                   Some v \<Rightarrow> date_fromisoformat_strftime v
                 | None \<Rightarrow> Some (reservation_date existing_record)) of
             None \<Rightarrow> (tbl, Inl HTTP_500_INTERNAL_SERVER_ERROR)
           | Some check_date \<Rightarrow>
               (let check_stylist = (case u_stylist_name updates of
                                       Some v \<Rightarrow> v | None \<Rightarrow> stylist_name existing_record);
                    check_time = (case u_reservation_time updates of
                                    Some v \<Rightarrow> v | None \<Rightarrow> reservation_time existing_record)
                in if check_availability_conflict tbl check_stylist check_date check_time
                        (Some rid)
                   then (tbl, Inl HTTP_409_CONFLICT)
                   else (case table_update tbl (apply_update_data updates) rid now of
                           (tbl', []) \<Rightarrow> (tbl', Inl HTTP_500_INTERNAL_SERVER_ERROR)
                         | (tbl', updated_record # _) \<Rightarrow> (tbl', Inr updated_record)))))"

definition cancel_reservation ::
  "table \<Rightarrow> uuid \<Rightarrow> string \<Rightarrow> table \<times> (http_error + ReservationResponse)" where
  "cancel_reservation tbl rid now =
     (case filter (\<lambda>r. reservation_id r = rid) tbl of
        [] \<Rightarrow> (tbl, Inl HTTP_404_NOT_FOUND)
      | _ # _ \<Rightarrow>
          (case table_update tbl (\<lambda>r. r\<lparr>status := CANCELLED\<rparr>) rid now of
             (tbl', []) \<Rightarrow> (tbl', Inl HTTP_500_INTERNAL_SERVER_ERROR)
           | (tbl', cancelled_record # _) \<Rightarrow> (tbl', Inr cancelled_record)))"

definition check_availability :: "table \<Rightarrow> date \<Rightarrow> string \<Rightarrow> AvailabilityResponse" where
  "check_availability tbl d stylist =
     (let data = filter (\<lambda>r. stylist_name r = stylist \<and> reservation_date r = d
                             \<and> status r = SCHEDULED) tbl;
          booked_times = (if data \<noteq> [] then map reservation_time data else []);
          all_hours = get_all_hours_in_day;
          available_times = filter (\<lambda>t. t \<notin> set booked_times) all_hours
      in \<lparr> a_date = d,
           a_stylist_name = stylist,
           booked_slots = sort booked_times,
           available_slots = sort available_times \<rparr>)"

text \<open>
  The framework validates the body before it calls the endpoint function and answers
  422 by itself when validation fails.
\<close>

definition post_add ::
  "(json \<Rightarrow> time option) \<Rightarrow> table \<Rightarrow> CreateBody \<Rightarrow> uuid \<Rightarrow> string
    \<Rightarrow> table \<times> (http_error + ReservationCreateResponse)" where
  "post_add parse_time tbl body new_id now =
     (case validate_ReservationCreate parse_time body of
        None \<Rightarrow> (tbl, Inl HTTP_422_UNPROCESSABLE_ENTITY)
      | Some req \<Rightarrow> create_reservation tbl req new_id now)"

definition put_modify ::
  "(json \<Rightarrow> time option) \<Rightarrow> table \<Rightarrow> uuid \<Rightarrow> UpdateBody \<Rightarrow> string
    \<Rightarrow> table \<times> (http_error + ReservationResponse)" where
  "put_modify parse_time tbl rid body now =
     (case validate_ReservationUpdate parse_time body of
        None \<Rightarrow> (tbl, Inl HTTP_422_UNPROCESSABLE_ENTITY)
      | Some updates \<Rightarrow> modify_reservation tbl rid updates now)"

text \<open>A sequential run: the write requests, one after the other, each on the table the last left.\<close>

datatype request =
    Add ReservationCreate uuid string
  | Modify uuid ReservationUpdate string
  | Cancel uuid string
  | Lookup string
  | Availability date string

fun handle :: "table \<Rightarrow> request \<Rightarrow> table" where
  "handle tbl (Add req new_id now) = fst (create_reservation tbl req new_id now)"
| "handle tbl (Modify rid updates now) = fst (modify_reservation tbl rid updates now)"
| "handle tbl (Cancel rid now) = fst (cancel_reservation tbl rid now)"
| "handle tbl (Lookup phone) = tbl"
| "handle tbl (Availability d stylist) = tbl"

fun run :: "table \<Rightarrow> request list \<Rightarrow> table" where
  "run tbl [] = tbl"
| "run tbl (rq # rqs) = run (handle tbl rq) rqs"

section \<open>Invariants of the table\<close>

definition slot :: "reservation \<Rightarrow> string \<times> date \<times> time" where
  "slot r = (stylist_name r, reservation_date r, reservation_time r)"

text \<open>The key of the table is unique.\<close>

definition ids_unique :: "table \<Rightarrow> bool" where
  "ids_unique tbl = distinct (map reservation_id tbl)"

text \<open>At most one scheduled reservation per (stylist, date, time).\<close>

definition slot_unique :: "table \<Rightarrow> bool" where
  "slot_unique tbl = distinct (map slot (filter (\<lambda>r. status r = SCHEDULED) tbl))"

text \<open>
  What a successful cancel, and a successful modify, does to one row of the table: the
  rows under the key are rewritten and stamped, every other row is left alone.
\<close>

definition cancel_row :: "uuid \<Rightarrow> string \<Rightarrow> reservation \<Rightarrow> reservation" where
  "cancel_row rid now r =
     (if reservation_id r = rid then r\<lparr>status := CANCELLED, updated_at := now\<rparr> else r)"

definition modify_row :: "uuid \<Rightarrow> ReservationUpdate \<Rightarrow> string \<Rightarrow> reservation \<Rightarrow> reservation" where
  "modify_row rid updates now r =
     (if reservation_id r = rid then (apply_update_data updates r)\<lparr>updated_at := now\<rparr> else r)"

text \<open>The (stylist, date, time) a row has once an update is applied to it.\<close>

definition resulting_slot :: "ReservationUpdate \<Rightarrow> reservation \<Rightarrow> string \<times> date \<times> time" where
  "resulting_slot updates r = slot (apply_update_data updates r)"

text \<open>The same, counted as the specification words it.\<close>

definition scheduled_at :: "table \<Rightarrow> string \<Rightarrow> date \<Rightarrow> time \<Rightarrow> reservation list" where
  "scheduled_at tbl stylist d t =
     filter (\<lambda>r. status r = SCHEDULED \<and> stylist_name r = stylist
                 \<and> reservation_date r = d \<and> reservation_time r = t) tbl"

section \<open>Example data\<close>

text \<open>The booking of the specification's end-to-end example, as the store holds it.\<close>

definition ann_row :: reservation where
  "ann_row = \<lparr> reservation_id = 1, customer_name = ''Ann'', phone_number = ''555'',
      reservation_date = (2025, 6, 1), reservation_time = (9, 0, 0),
      stylist_name = ''Kim'', service_menu = ''cut'', duration_minutes = 60,
      status = SCHEDULED, notes = None, created_at = ''t0'', updated_at = ''t0'' \<rparr>"

text \<open>Kim's day: a booking at 11, one at 9, and a cancelled one at 9.\<close>

definition kim_day :: table where
  "kim_day = [ann_row\<lparr>reservation_id := 2, reservation_time := (11, 0, 0)\<rparr>,
              ann_row,
              ann_row\<lparr>reservation_id := 3, status := CANCELLED\<rparr>]"

text \<open>
  A table in which two requests raced past the conflict check: two scheduled rows for
  the same stylist, date and time.
\<close>

definition double_booked :: table where
  "double_booked = [ann_row, ann_row\<lparr>reservation_id := 2\<rparr>]"

definition ann_body :: CreateBody where
  "ann_body = \<lparr> b_customer_name = ''Ann'', b_phone_number = ''555'',
      b_reservation_date = (2025, 6, 1), b_reservation_time = JStr ''9:00'',
      b_stylist_name = ''Kim'', b_service_menu = ''cut'',
      b_duration_minutes = Some 0, b_notes = None \<rparr>"

definition shorten_body :: UpdateBody where
  "shorten_body = \<lparr> ub_reservation_date = None, ub_reservation_time = None,
      ub_stylist_name = None, ub_service_menu = None,
      ub_duration_minutes = Some 0, ub_notes = None \<rparr>"

text \<open>
  A create request for the same booking, one by another customer for the same stylist,
  date and time, and update requests used in the examples.
\<close>

definition ann_req :: ReservationCreate where
  "ann_req = \<lparr> c_customer_name = ''Ann'', c_phone_number = ''555'',
      c_reservation_date = (2025, 6, 1), c_reservation_time = (9, 0, 0),
      c_stylist_name = ''Kim'', c_service_menu = ''cut'',
      c_duration_minutes = 60, c_notes = None \<rparr>"


definition no_updates :: ReservationUpdate where
  "no_updates = \<lparr> u_reservation_date = None, u_reservation_time = None,
      u_stylist_name = None, u_service_menu = None, u_duration_minutes = None,
      u_notes = None \<rparr>"

definition retime_updates :: ReservationUpdate where
  "retime_updates = no_updates\<lparr>u_reservation_time := Some (9, 0, 0)\<rparr>"

definition resave_updates :: ReservationUpdate where
  "resave_updates = no_updates\<lparr>u_reservation_date := Some (2025, 6, 1),
                               u_reservation_time := Some (9, 0, 0)\<rparr>"

definition blank_updates :: ReservationUpdate where
  "blank_updates = no_updates\<lparr>u_stylist_name := Some [], u_notes := Some []\<rparr>"

text \<open>
  The table after Ann's booking was created, cancelled, and the slot booked again under
  a new key.
\<close>

definition rebooked :: table where
  "rebooked = [ann_row\<lparr>status := CANCELLED, updated_at := ''t1''\<rparr>,
               ann_row\<lparr>reservation_id := 2, created_at := ''t2'', updated_at := ''t2''\<rparr>]"

definition busy_morning :: "request list" where
  "busy_morning = [Add ann_req 1 ''t0'', Add ann_req 2 ''t1'', Cancel 1 ''t1'',
                   Add ann_req 2 ''t2'', Modify 2 retime_updates ''t3'']"

section \<open>Time normalization\<close>

lemma digit_not_special:
  "is_digit c \<Longrightarrow> c \<noteq> CHR '':'' \<and> c \<noteq> CHR ''+'' \<and> c \<noteq> CHR ''-''"
  by (auto simp: is_digit_def)

lemma str_split_length: "length (str_split sep s) = Suc (count_list s sep)"
  by (induction s) auto

lemma str_split_no_sep: "sep \<notin> set s \<Longrightarrow> str_split sep s = [s]"
  by (induction s) auto

lemma str_split_first:
  "sep \<notin> set h \<Longrightarrow> str_split sep (h @ sep # rest) = h # str_split sep rest"
  by (induction h) auto

lemma normalize_two_segments:
  assumes "CHR '':'' \<notin> set h" "CHR '':'' \<notin> set m"
  shows "ReservationCreate_normalize_time (JStr (h @ '':'' @ m))
         = JStr (zfill h 2 @ '':'' @ m @ '':00'')"
  using assms
  by (simp add: ReservationCreate_normalize_time_def str_split_first str_split_no_sep)

lemma normalize_three_segments:
  assumes "CHR '':'' \<notin> set h" "CHR '':'' \<notin> set m" "CHR '':'' \<notin> set x"
  shows "ReservationCreate_normalize_time (JStr (h @ '':'' @ m @ '':'' @ x))
         = JStr (zfill h 2 @ '':'' @ m @ '':'' @ x)"
  using assms
  by (simp add: ReservationCreate_normalize_time_def str_split_first str_split_no_sep)

lemma normalize_time_same:
  "ReservationUpdate_normalize_time = ReservationCreate_normalize_time"
  by (rule ext)
     (simp add: ReservationUpdate_normalize_time_def ReservationCreate_normalize_time_def)

lemma normalize_passthrough:
  "count_list s (CHR '':'') = 0 \<or> 3 \<le> count_list s (CHR '':'')
   \<Longrightarrow> ReservationCreate_normalize_time (JStr s) = JStr s"
  using str_split_length[of "CHR '':''" s]
  by (auto simp: ReservationCreate_normalize_time_def split: list.splits)

lemma normalize_non_string:
  "\<forall>s. v \<noteq> JStr s \<Longrightarrow> ReservationCreate_normalize_time v = v"
  by (cases v) (auto simp: ReservationCreate_normalize_time_def)

lemma normalize_H_MM:
  "shape_H_MM s \<Longrightarrow> ReservationCreate_normalize_time (JStr s) = JStr (CHR ''0'' # s @ '':00'')"
  by (cases s rule: shape_H_MM.cases)
     (auto simp: ReservationCreate_normalize_time_def zfill_def dest!: digit_not_special)

lemma normalize_HH_MM:
  "shape_HH_MM s \<Longrightarrow> ReservationCreate_normalize_time (JStr s) = JStr (s @ '':00'')"
  by (cases s rule: shape_HH_MM.cases)
     (auto simp: ReservationCreate_normalize_time_def zfill_def dest!: digit_not_special)

lemma normalize_H_MM_SS:
  "shape_H_MM_SS s \<Longrightarrow> ReservationCreate_normalize_time (JStr s) = JStr (CHR ''0'' # s)"
  by (cases s rule: shape_H_MM_SS.cases)
     (auto simp: ReservationCreate_normalize_time_def zfill_def dest!: digit_not_special)

lemma normalize_HH_MM_SS:
  "shape_HH_MM_SS s \<Longrightarrow> ReservationCreate_normalize_time (JStr s) = JStr s"
  by (cases s rule: shape_HH_MM_SS.cases)
     (auto simp: ReservationCreate_normalize_time_def zfill_def dest!: digit_not_special)

text \<open>
  C4, as the specification states it, fails in its last part: a string of another shape
  is not always passed through. \<^verbatim>\<open>"123:45"\<close> has a three-digit hour, so it has none of
  the four shapes, yet it splits into two segments and comes back as \<^verbatim>\<open>"123:45:00"\<close>.
\<close>

theorem normalize_time_other_shape_counterexample:
  "\<not> time_shape ''123:45''
   \<and> ReservationCreate_normalize_time (JStr ''123:45'') = JStr ''123:45:00''
   \<and> ReservationCreate_normalize_time (JStr ''123:45'') \<noteq> JStr ''123:45''"
  by (simp add: time_shape_def ReservationCreate_normalize_time_def zfill_def)

text \<open>
  C4, amended. The create and the update model normalize with the same function. A string
  of shape \<open>H:MM\<close>, \<open>HH:MM\<close>, \<open>H:MM:SS\<close> or \<open>HH:MM:SS\<close> gets its hour padded to two digits and
  \<open>:00\<close> appended when it has no seconds, so the one-digit and the two-digit spelling of an
  hour give the same \<open>HH:MM:SS\<close> string. A string with no colon or with three or more
  colons is returned unchanged. Every string with exactly one or exactly two colons is
  rewritten, whatever its segments hold: the first segment is \<open>zfill\<close>ed to width two, and
  \<open>:00\<close> is appended when there are two segments.
\<close>

theorem normalize_time_shapes:
  "ReservationUpdate_normalize_time v = ReservationCreate_normalize_time v
   \<and> ((\<forall>s. w \<noteq> JStr s) \<longrightarrow> ReservationCreate_normalize_time w = w)
   \<and> (shape_H_MM a \<longrightarrow> ReservationCreate_normalize_time (JStr a) = JStr (CHR ''0'' # a @ '':00''))
   \<and> (shape_HH_MM b \<longrightarrow> ReservationCreate_normalize_time (JStr b) = JStr (b @ '':00''))
   \<and> (shape_H_MM_SS c \<longrightarrow> ReservationCreate_normalize_time (JStr c) = JStr (CHR ''0'' # c))
   \<and> (shape_HH_MM_SS d \<longrightarrow> ReservationCreate_normalize_time (JStr d) = JStr d)
   \<and> (count_list e (CHR '':'') = 0 \<or> 3 \<le> count_list e (CHR '':'')
        \<longrightarrow> ReservationCreate_normalize_time (JStr e) = JStr e)
   \<and> (CHR '':'' \<notin> set h \<and> CHR '':'' \<notin> set m
        \<longrightarrow> ReservationCreate_normalize_time (JStr (h @ '':'' @ m))
            = JStr (zfill h 2 @ '':'' @ m @ '':00''))
   \<and> (CHR '':'' \<notin> set h \<and> CHR '':'' \<notin> set m \<and> CHR '':'' \<notin> set x
        \<longrightarrow> ReservationCreate_normalize_time (JStr (h @ '':'' @ m @ '':'' @ x))
            = JStr (zfill h 2 @ '':'' @ m @ '':'' @ x))"
  using normalize_H_MM normalize_HH_MM normalize_H_MM_SS normalize_HH_MM_SS
    normalize_passthrough normalize_two_segments normalize_three_segments
    normalize_non_string [of w]
  by (simp add: normalize_time_same)

theorem normalize_time_shapes_witness:
  "shape_H_MM ''9:30'' \<and> ReservationCreate_normalize_time (JStr ''9:30'') = JStr ''09:30:00''
   \<and> shape_HH_MM ''09:30'' \<and> ReservationCreate_normalize_time (JStr ''09:30'') = JStr ''09:30:00''
   \<and> shape_H_MM_SS ''9:30:15''
   \<and> ReservationCreate_normalize_time (JStr ''9:30:15'') = JStr ''09:30:15''
   \<and> shape_HH_MM_SS ''09:30:15''
   \<and> ReservationCreate_normalize_time (JStr ''09:30:15'') = JStr ''09:30:15''
   \<and> count_list ''0930'' (CHR '':'') = 0
   \<and> ReservationCreate_normalize_time (JStr ''0930'') = JStr ''0930''
   \<and> CHR '':'' \<notin> set ''7'' \<and> CHR '':'' \<notin> set ''5'' \<and> CHR '':'' \<notin> set ''6''
   \<and> ReservationCreate_normalize_time (JStr ''7:5'') = JStr ''07:5:00''
   \<and> ReservationCreate_normalize_time (JStr ''7:5:6'') = JStr ''07:5:6''
   \<and> ReservationUpdate_normalize_time (JStr ''9:30'') = JStr ''09:30:00''
   \<and> (\<forall>s. JNum 930 \<noteq> JStr s) \<and> ReservationCreate_normalize_time (JNum 930) = JNum 930"
  using normalize_time_shapes [where v = "JStr ''9:30''" and w = "JNum 930" and a = "''9:30''"
      and b = "''09:30''" and c = "''9:30:15''" and d = "''09:30:15''" and e = "''0930''"
      and h = "''7''" and m = "''5''" and x = "''6''"]
  by (simp add: is_digit_def zfill_def)

section \<open>Conflict checker\<close>

text \<open>
  C2. \<open>check_availability_conflict\<close> answers true exactly when, once the row with the
  excluded identifier (if one is given) is taken out of the table, some row is left with
  the same stylist, date and time and with status \<open>scheduled\<close>. A cancelled or completed
  row is never such a row.
\<close>

theorem conflict_iff:
  "check_availability_conflict tbl stylist d t exclude_id
   \<longleftrightarrow> (\<exists>r \<in> set (case exclude_id of
                         None \<Rightarrow> tbl
                       | Some e \<Rightarrow> filter (\<lambda>r. reservation_id r \<noteq> e) tbl).
          stylist_name r = stylist \<and> reservation_date r = d \<and> reservation_time r = t
          \<and> status r = SCHEDULED)"
  by (cases exclude_id) (auto simp: check_availability_conflict_def filter_empty_conv)

theorem conflict_iff_witness:
  "check_availability_conflict kim_day ''Kim'' (2025, 6, 1) (9, 0, 0) None
   \<and> \<not> check_availability_conflict kim_day ''Kim'' (2025, 6, 1) (9, 0, 0) (Some 1)
   \<and> \<not> check_availability_conflict [ann_row\<lparr>status := COMPLETED\<rparr>]
          ''Kim'' (2025, 6, 1) (9, 0, 0) None"
  using conflict_iff [of kim_day "''Kim''" "(2025, 6, 1)" "(9, 0, 0)" None]
    conflict_iff [of kim_day "''Kim''" "(2025, 6, 1)" "(9, 0, 0)" "Some 1"]
    conflict_iff [of "[ann_row\<lparr>status := COMPLETED\<rparr>]" "''Kim''" "(2025, 6, 1)" "(9, 0, 0)" None]
  by (simp add: kim_day_def ann_row_def)

section \<open>Duration validation\<close>

text \<open>
  C7. A supplied duration that is zero or negative makes validation fail on the create
  model and on the update model alike; the framework answers 422, whatever the table
  holds, and the table is left as it was: neither the conflict check nor a write is
  reached.
\<close>

theorem nonpositive_duration_rejected:
  assumes "v \<le> 0"
  shows "(b_duration_minutes body = Some v \<longrightarrow>
            validate_ReservationCreate parse_time body = None
            \<and> post_add parse_time tbl body new_id now
                = (tbl, Inl HTTP_422_UNPROCESSABLE_ENTITY))
       \<and> (ub_duration_minutes ubody = Some v \<longrightarrow>
            validate_ReservationUpdate parse_time ubody = None
            \<and> put_modify parse_time tbl rid ubody now
                = (tbl, Inl HTTP_422_UNPROCESSABLE_ENTITY))"
  using assms
  by (simp add: post_add_def put_modify_def validate_ReservationCreate_def
      validate_ReservationUpdate_def ReservationCreate_validate_duration_def
      ReservationUpdate_validate_duration_def)

theorem nonpositive_duration_rejected_witness:
  "(0::int) \<le> 0 \<and> b_duration_minutes ann_body = Some 0
   \<and> ub_duration_minutes shorten_body = Some 0
   \<and> post_add (\<lambda>v. Some (9, 0, 0)) kim_day ann_body 7 ''t1''
       = (kim_day, Inl HTTP_422_UNPROCESSABLE_ENTITY)
   \<and> put_modify (\<lambda>v. Some (9, 0, 0)) kim_day 1 shorten_body ''t1''
       = (kim_day, Inl HTTP_422_UNPROCESSABLE_ENTITY)"
  using nonpositive_duration_rejected [where v = 0 and body = ann_body
      and parse_time = "\<lambda>v. Some (9, 0, 0)" and tbl = kim_day and new_id = 7
      and now = "''t1''" and ubody = shorten_body and rid = 1]
  by (simp add: ann_body_def shorten_body_def)

section \<open>Lookup\<close>

lemma sort_key_Nil_iff: "sort_key f xs = [] \<longleftrightarrow> xs = []"
  using length_sort [of f xs] by (metis length_0_conv)

text \<open>
  C9. \<open>lookup_reservations\<close> answers 404 exactly when the table has no scheduled row for
  the phone number (cancelled rows do not count). Otherwise it returns the scheduled rows
  of that phone number, all of them and nothing else, in ascending order of date and, for
  equal dates, of time.
\<close>

theorem lookup_scheduled_sorted:
  "(case lookup_reservations tbl phone of
      Inl e \<Rightarrow> e = HTTP_404_NOT_FOUND
               \<and> \<not> (\<exists>r \<in> set tbl. phone_number r = phone \<and> status r = SCHEDULED)
    | Inr rs \<Rightarrow> (\<exists>r \<in> set tbl. phone_number r = phone \<and> status r = SCHEDULED)
               \<and> set rs = {r \<in> set tbl. phone_number r = phone \<and> status r = SCHEDULED}
               \<and> mset rs
                   = mset (filter (\<lambda>r. phone_number r = phone \<and> status r = SCHEDULED) tbl)
               \<and> sorted (map (\<lambda>r. (reservation_date r, reservation_time r)) rs))"
  by (auto simp: lookup_reservations_def Let_def filter_empty_conv sort_key_Nil_iff)

theorem lookup_scheduled_sorted_witness:
  "lookup_reservations (ann_row\<lparr>reservation_id := 4, reservation_date := (2025, 6, 2)\<rparr> # kim_day)
     ''555''
    = Inr [ann_row, ann_row\<lparr>reservation_id := 2, reservation_time := (11, 0, 0)\<rparr>,
           ann_row\<lparr>reservation_id := 4, reservation_date := (2025, 6, 2)\<rparr>]
   \<and> lookup_reservations [ann_row\<lparr>status := CANCELLED\<rparr>] ''555'' = Inl HTTP_404_NOT_FOUND"
  using lookup_scheduled_sorted
      [of "ann_row\<lparr>reservation_id := 4, reservation_date := (2025, 6, 2)\<rparr> # kim_day" "''555''"]
    lookup_scheduled_sorted [of "[ann_row\<lparr>status := CANCELLED\<rparr>]" "''555''"]
  by (simp add: lookup_reservations_def kim_day_def ann_row_def)

section \<open>Availability\<close>

lemma all_hours:
  "get_all_hours_in_day =
     [(9,0,0), (10,0,0), (11,0,0), (12,0,0), (13,0,0), (14,0,0), (15,0,0), (16,0,0)]"
  by (simp add: get_all_hours_in_day_def upt_rec)

lemma all_hours_sorted: "sorted get_all_hours_in_day \<and> distinct get_all_hours_in_day"
  by (simp add: all_hours)

lemma slot_unique_times:
  assumes "slot_unique tbl"
  shows "distinct (map reservation_time
     (filter (\<lambda>r. stylist_name r = st \<and> reservation_date r = d \<and> status r = SCHEDULED) tbl))"
proof -
  let ?sched = "filter (\<lambda>r. status r = SCHEDULED) tbl"
  let ?P = "\<lambda>r. stylist_name r = st \<and> reservation_date r = d"
  have same:
    "filter (\<lambda>r. stylist_name r = st \<and> reservation_date r = d \<and> status r = SCHEDULED) tbl
      = filter ?P ?sched"
    by (simp add: conj_commute conj_left_commute)
  have "distinct (map slot (filter ?P ?sched))"
    using assms unfolding slot_unique_def by (rule distinct_map_filter)
  then have d: "distinct (filter ?P ?sched)" and i: "inj_on slot (set (filter ?P ?sched))"
    by (simp_all only: distinct_map)
  have "inj_on reservation_time (set (filter ?P ?sched))"
  proof (rule inj_onI)
    fix x y
    assume x: "x \<in> set (filter ?P ?sched)" and y: "y \<in> set (filter ?P ?sched)"
      and t: "reservation_time x = reservation_time y"
    from x y t have "slot x = slot y" by (simp add: slot_def)
    with i x y show "x = y" by (meson inj_onD)
  qed
  with d have "distinct (map reservation_time (filter ?P ?sched))"
    by (simp only: distinct_map)
  with same show ?thesis by simp
qed

lemma check_availability_eq:
  "check_availability tbl d stylist =
     (let booked_times =
            map reservation_time
              (filter (\<lambda>r. stylist_name r = stylist \<and> reservation_date r = d
                           \<and> status r = SCHEDULED) tbl)
      in \<lparr> a_date = d,
           a_stylist_name = stylist,
           booked_slots = sort booked_times,
           available_slots = sort (filter (\<lambda>t. t \<notin> set booked_times) get_all_hours_in_day) \<rparr>)"
proof -
  have "(if xs \<noteq> [] then map reservation_time xs else []) = map reservation_time xs"
    for xs :: table
    by simp
  then show ?thesis
    by (simp add: check_availability_def Let_def)
qed

lemma booked_sorted: "sorted (booked_slots (check_availability tbl d st))"
  by (simp add: check_availability_eq Let_def)

lemma booked_mset:
  "mset (booked_slots (check_availability tbl d st))
   = mset (map reservation_time
       (filter (\<lambda>r. stylist_name r = st \<and> reservation_date r = d \<and> status r = SCHEDULED) tbl))"
  by (simp add: check_availability_eq Let_def)

lemma booked_distinct:
  "slot_unique tbl \<Longrightarrow> distinct (booked_slots (check_availability tbl d st))"
  using slot_unique_times [of tbl st d] by (simp add: check_availability_eq Let_def)

lemma available_sorted: "sorted (available_slots (check_availability tbl d st))"
  by (simp add: check_availability_eq Let_def)

lemma available_distinct: "distinct (available_slots (check_availability tbl d st))"
  using all_hours_sorted by (simp add: check_availability_eq Let_def)

lemma available_set:
  "set (available_slots (check_availability tbl d st))
   = set get_all_hours_in_day - set (booked_slots (check_availability tbl d st))"
  by (auto simp add: check_availability_eq Let_def)

lemma kim_day_slot_unique: "slot_unique kim_day"
  by (simp add: kim_day_def ann_row_def slot_unique_def slot_def)

lemma kim_day_booked:
  "booked_slots (check_availability kim_day (2025, 6, 1) ''Kim'') = [(9,0,0), (11,0,0)]"
  by (simp add: kim_day_def ann_row_def check_availability_def)

lemma kim_day_available:
  "available_slots (check_availability kim_day (2025, 6, 1) ''Kim'')
   = [(10,0,0), (12,0,0), (13,0,0), (14,0,0), (15,0,0), (16,0,0)]"
  by (simp add: kim_day_def ann_row_def check_availability_def all_hours)

text \<open>
  C3, as the specification states it, fails in one word: the booked list is not made of
  distinct times. The endpoint sorts the start times it reads and removes nothing, so on
  a double-booked table, which the unguarded check-then-write sequence can produce, the
  same time is listed twice.
\<close>

theorem booked_not_distinct_counterexample:
  "booked_slots (check_availability double_booked (2025, 6, 1) ''Kim'') = [(9,0,0), (9,0,0)]
   \<and> \<not> distinct (booked_slots (check_availability double_booked (2025, 6, 1) ''Kim''))"
  by (simp add: check_availability_def double_booked_def ann_row_def)

text \<open>
  C3, amended. The universe is the eight hourly slots from 09:00:00 to 16:00:00, whatever
  the durations in the table. The booked list is the ascending list of the start times of
  the scheduled reservations of that stylist and date, one entry per reservation; its
  entries are distinct whenever the table holds at most one scheduled reservation per
  (stylist, date, time). The available list is ascending, without repetition, and holds
  exactly the slots of the universe that are not booked, so the two lists are disjoint.
\<close>

theorem availability_slots:
  "get_all_hours_in_day =
     [(9,0,0), (10,0,0), (11,0,0), (12,0,0), (13,0,0), (14,0,0), (15,0,0), (16,0,0)]
   \<and> sorted (booked_slots (check_availability tbl d st))
   \<and> mset (booked_slots (check_availability tbl d st))
       = mset (map reservation_time
           (filter (\<lambda>r. stylist_name r = st \<and> reservation_date r = d
                        \<and> status r = SCHEDULED) tbl))
   \<and> (slot_unique tbl \<longrightarrow> distinct (booked_slots (check_availability tbl d st)))
   \<and> sorted (available_slots (check_availability tbl d st))
   \<and> distinct (available_slots (check_availability tbl d st))
   \<and> set (available_slots (check_availability tbl d st))
       = set get_all_hours_in_day - set (booked_slots (check_availability tbl d st))
   \<and> set (available_slots (check_availability tbl d st))
       \<inter> set (booked_slots (check_availability tbl d st)) = {}"
proof (intro conjI impI)
  show "set (available_slots (check_availability tbl d st))
       \<inter> set (booked_slots (check_availability tbl d st)) = {}"
    unfolding available_set by blast
qed (rule all_hours booked_sorted booked_mset booked_distinct available_sorted
      available_distinct available_set | assumption)+

theorem availability_slots_witness:
  "slot_unique kim_day
   \<and> booked_slots (check_availability kim_day (2025, 6, 1) ''Kim'') = [(9,0,0), (11,0,0)]
   \<and> available_slots (check_availability kim_day (2025, 6, 1) ''Kim'')
       = [(10,0,0), (12,0,0), (13,0,0), (14,0,0), (15,0,0), (16,0,0)]
   \<and> distinct (booked_slots (check_availability kim_day (2025, 6, 1) ''Kim''))"
  using availability_slots [of kim_day "(2025, 6, 1)" "''Kim''"]
    kim_day_slot_unique kim_day_booked kim_day_available
  by simp

section \<open>Closed forms of the store operations and endpoints\<close>

lemma table_update_fst:
  "fst (table_update tbl f rid now)
   = map (\<lambda>r. if reservation_id r = rid then (f r)\<lparr>updated_at := now\<rparr> else r) tbl"
  by (simp add: table_update_def Let_def)

lemma filter_id_map:
  assumes "\<And>r. reservation_id (f r) = reservation_id r"
  shows "filter (\<lambda>r. reservation_id r = rid)
           (map (\<lambda>r. if reservation_id r = rid then (f r)\<lparr>updated_at := now\<rparr> else r) tbl)
         = map (\<lambda>r. (f r)\<lparr>updated_at := now\<rparr>) (filter (\<lambda>r. reservation_id r = rid) tbl)"
  by (induction tbl) (auto simp: assms)

lemma table_update_eq:
  assumes "\<And>r. reservation_id (f r) = reservation_id r"
  shows "table_update tbl f rid now
         = (map (\<lambda>r. if reservation_id r = rid then (f r)\<lparr>updated_at := now\<rparr> else r) tbl,
            map (\<lambda>r. (f r)\<lparr>updated_at := now\<rparr>) (filter (\<lambda>r. reservation_id r = rid) tbl))"
  using filter_id_map [of f rid now tbl, OF assms]
  by (simp add: table_update_def Let_def)

lemma cancel_reservation_eq:
  "cancel_reservation tbl rid now =
     (case filter (\<lambda>r. reservation_id r = rid) tbl of
        [] \<Rightarrow> (tbl, Inl HTTP_404_NOT_FOUND)
      | r # _ \<Rightarrow> (map (cancel_row rid now) tbl, Inr (r\<lparr>status := CANCELLED, updated_at := now\<rparr>)))"
  by (simp add: cancel_reservation_def table_update_eq cancel_row_def split: list.splits cong: if_cong)

lemma cancel_row_twice: "cancel_row rid now' (cancel_row rid now r) = cancel_row rid now' r"
  by (simp add: cancel_row_def)

lemma cancel_row_id: "reservation_id (cancel_row rid now r) = reservation_id r"
  by (simp add: cancel_row_def)

lemma filter_id_cancel: "filter (\<lambda>r. reservation_id r = rid) (map (cancel_row rid now) tbl) 
   = map (\<lambda>r. r\<lparr>status := CANCELLED, updated_at := now\<rparr>) (filter (\<lambda>r. reservation_id r = rid) tbl)"
  by (induction tbl) (auto simp: cancel_row_def)

lemma filter_id_nonempty: "rid \<in> reservation_id ` set tbl \<Longrightarrow> \<exists>r rs. filter (\<lambda>r. reservation_id r = rid) tbl = r # rs \<and> reservation_id r = rid \<and> r \<in> set tbl"
proof -
  assume "rid \<in> reservation_id ` set tbl"
  then have "filter (\<lambda>r. reservation_id r = rid) tbl \<noteq> []" by (auto simp: filter_empty_conv)
  then obtain r rs where e: "filter (\<lambda>r. reservation_id r = rid) tbl = r # rs" by (cases "filter (\<lambda>r. reservation_id r = rid) tbl") auto
  then have "r \<in> set (filter (\<lambda>r. reservation_id r = rid) tbl)" by simp
  then have "reservation_id r = rid \<and> r \<in> set tbl" by simp
  with e show ?thesis by blast
qed

lemma conflict_none_iff:
  "check_availability_conflict tbl st d t None
   \<longleftrightarrow> (st, d, t) \<in> slot ` {r \<in> set tbl. status r = SCHEDULED}"
  by (auto simp: check_availability_conflict_def filter_empty_conv slot_def image_iff)

lemma conflict_some_iff:
  "check_availability_conflict tbl st d t (Some e)
   \<longleftrightarrow> (st, d, t) \<in> slot ` {r \<in> set tbl. status r = SCHEDULED \<and> reservation_id r \<noteq> e}"
  by (auto simp: check_availability_conflict_def filter_empty_conv slot_def image_iff)

lemma create_reservation_eq:
  "create_reservation tbl req new_id now =
     (if check_availability_conflict tbl (c_stylist_name req) (c_reservation_date req)
           (c_reservation_time req) None
      then (tbl, Inl HTTP_409_CONFLICT)
      else if new_id \<in> reservation_id ` set tbl then (tbl, Inl HTTP_500_INTERNAL_SERVER_ERROR)
      else (tbl @ [reservation_data req new_id now],
            Inr \<lparr> message = ''Reservation created successfully for '' @ c_customer_name req,
                  created_id = new_id,
                  reservation = reservation_data req new_id now \<rparr>))"
  by (simp add: create_reservation_def table_insert_def reservation_data_def)

lemma reservation_data_simps:
  "reservation_id (reservation_data req new_id now) = new_id"
  "status (reservation_data req new_id now) = SCHEDULED"
  "slot (reservation_data req new_id now)
     = (c_stylist_name req, c_reservation_date req, c_reservation_time req)"
  by (simp_all add: reservation_data_def slot_def)



lemma cancel_row_other: "reservation_id r \<noteq> rid \<Longrightarrow> cancel_row rid now r = r"
  by (simp add: cancel_row_def)

lemma apply_update_data_id [simp]:
  "reservation_id (apply_update_data u r) = reservation_id r"
  by (simp add: apply_update_data_def)

lemma resulting_slot_eq:
  "resulting_slot u r =
     (case u_stylist_name u of Some v \<Rightarrow> v | None \<Rightarrow> stylist_name r,
      case u_reservation_date u of Some v \<Rightarrow> v | None \<Rightarrow> reservation_date r,
      case u_reservation_time u of Some v \<Rightarrow> v | None \<Rightarrow> reservation_time r)"
  by (simp add: resulting_slot_def slot_def apply_update_data_def)

lemma modify_reservation_eq:
  "modify_reservation tbl rid u now =
     (case filter (\<lambda>r. reservation_id r = rid) tbl of
        [] \<Rightarrow> (tbl, Inl HTTP_404_NOT_FOUND)
      | r # _ \<Rightarrow>
          if supplied_date_unreadable u
          then (tbl, Inl HTTP_500_INTERNAL_SERVER_ERROR)
          else if resulting_slot u r
               \<in> slot ` {x \<in> set tbl. status x = SCHEDULED \<and> reservation_id x \<noteq> rid}
          then (tbl, Inl HTTP_409_CONFLICT)
          else (map (modify_row rid u now) tbl,
                Inr ((apply_update_data u r)\<lparr>updated_at := now\<rparr>)))"
proof (cases "filter (\<lambda>r. reservation_id r = rid) tbl")
  case Nil
  then show ?thesis by (simp add: modify_reservation_def)
next
  case (Cons r rs)
  show ?thesis
  proof (cases "u_reservation_date u")
    case None
    with Cons show ?thesis
      by (simp add: modify_reservation_def supplied_date_unreadable_def table_update_eq
          modify_row_def resulting_slot_eq conflict_some_iff Let_def cong: if_cong)
  next
    case (Some d)
    with Cons show ?thesis
      by (simp add: modify_reservation_def supplied_date_unreadable_def
          date_fromisoformat_strftime_def table_update_eq
          modify_row_def resulting_slot_eq conflict_some_iff Let_def cong: if_cong)
  qed
qed

lemma modify_row_kept:
  "customer_name (modify_row rid u now r) = customer_name r"
  "phone_number (modify_row rid u now r) = phone_number r"
  "status (modify_row rid u now r) = status r"
  "reservation_id (modify_row rid u now r) = reservation_id r"
  "created_at (modify_row rid u now r) = created_at r"
  by (simp_all add: modify_row_def apply_update_data_def)



lemma modify_row_other: "reservation_id r \<noteq> rid \<Longrightarrow> modify_row rid u now r = r"
  by (simp add: modify_row_def)


lemma conflict_bex:
  "check_availability_conflict tbl st d t exclude_id
   \<longleftrightarrow> (\<exists>r \<in> set tbl. stylist_name r = st \<and> reservation_date r = d \<and> reservation_time r = t
          \<and> status r = SCHEDULED \<and> (\<forall>e. exclude_id = Some e \<longrightarrow> reservation_id r \<noteq> e))"
  by (cases exclude_id) (auto simp: check_availability_conflict_def filter_empty_conv)

lemma modify_reservation_bex:
  "modify_reservation tbl rid u now =
     (case filter (\<lambda>r. reservation_id r = rid) tbl of
        [] \<Rightarrow> (tbl, Inl HTTP_404_NOT_FOUND)
      | r # _ \<Rightarrow>
          if supplied_date_unreadable u
          then (tbl, Inl HTTP_500_INTERNAL_SERVER_ERROR)
          else if \<exists>x \<in> set tbl. status x = SCHEDULED \<and> reservation_id x \<noteq> rid
                \<and> slot x = resulting_slot u r
          then (tbl, Inl HTTP_409_CONFLICT)
          else (map (modify_row rid u now) tbl,
                Inr ((apply_update_data u r)\<lparr>updated_at := now\<rparr>)))"
  unfolding modify_reservation_eq
  by (rule list.case_cong [OF refl refl]) (auto simp: image_iff)

lemmas run_evals = create_reservation_eq cancel_reservation_eq modify_reservation_bex
  conflict_bex reservation_data_def cancel_row_def modify_row_def apply_update_data_def
  resulting_slot_def slot_def supplied_date_unreadable_def date_fromisoformat_strftime_def

lemmas example_defs = ann_req_def ann_row_def no_updates_def retime_updates_def
  resave_updates_def
  blank_updates_def rebooked_def kim_day_def

section \<open>Cancel\<close>

text \<open>
  C10. Cancel asks only that the key exists. With a row under the key it answers 200 with
  that row, its status now \<open>cancelled\<close>; in the table every row under the key gets status
  \<open>cancelled\<close> and a fresh \<open>updated_at\<close>, and nothing else changes. Cancelling again, now
  on a cancelled reservation, succeeds in the same way, and the table it leaves is the one
  a single cancel at the later time leaves: equal to the first result except for
  \<open>updated_at\<close>.
\<close>

theorem cancel_idempotent:
  assumes "rid \<in> reservation_id ` set tbl"
  shows "\<exists>r \<in> set tbl. reservation_id r = rid
          \<and> cancel_reservation tbl rid now
              = (map (cancel_row rid now) tbl,
                 Inr (r\<lparr>status := CANCELLED, updated_at := now\<rparr>))
          \<and> cancel_reservation (map (cancel_row rid now) tbl) rid now'
              = (map (cancel_row rid now') tbl,
                 Inr (r\<lparr>status := CANCELLED, updated_at := now'\<rparr>))"
proof -
  from filter_id_nonempty [OF assms] obtain r rs where
    e: "filter (\<lambda>r. reservation_id r = rid) tbl = r # rs"
    and r: "reservation_id r = rid" "r \<in> set tbl"
    by blast
  have one: "cancel_reservation tbl rid now
      = (map (cancel_row rid now) tbl, Inr (r\<lparr>status := CANCELLED, updated_at := now\<rparr>))"
    using e by (simp add: cancel_reservation_eq)
  have two: "cancel_reservation (map (cancel_row rid now) tbl) rid now'
      = (map (cancel_row rid now') tbl, Inr (r\<lparr>status := CANCELLED, updated_at := now'\<rparr>))"
    using e by (simp add: cancel_reservation_eq filter_id_cancel cancel_row_twice comp_def)
  from r one two show ?thesis by blast
qed

theorem cancel_idempotent_witness:
  "(1::nat) \<in> reservation_id ` set kim_day
   \<and> cancel_reservation kim_day 1 ''t1''
       = ([ann_row\<lparr>reservation_id := 2, reservation_time := (11, 0, 0)\<rparr>,
           ann_row\<lparr>status := CANCELLED, updated_at := ''t1''\<rparr>,
           ann_row\<lparr>reservation_id := 3, status := CANCELLED\<rparr>],
          Inr (ann_row\<lparr>status := CANCELLED, updated_at := ''t1''\<rparr>))
   \<and> cancel_reservation (map (cancel_row 1 ''t1'') kim_day) 1 ''t1''
       = (map (cancel_row 1 ''t1'') kim_day,
          Inr (ann_row\<lparr>status := CANCELLED, updated_at := ''t1''\<rparr>))"
proof -
  have h: "(1::nat) \<in> reservation_id ` set kim_day"
    by (simp add: kim_day_def ann_row_def)
  from cancel_idempotent [OF h, of "''t1''" "''t1''"] h show ?thesis
    by (simp add: run_evals example_defs)
qed

section \<open>Create, conflict, rebook\<close>



section \<open>Modify: what changes and what does not\<close>



section \<open>Modify at the own slot\<close>

lemma filter_id_single:
  "ids_unique tbl \<Longrightarrow> r \<in> set tbl \<Longrightarrow> filter (\<lambda>x. reservation_id x = reservation_id r) tbl = [r]"
  unfolding ids_unique_def
  by (induction tbl) (auto simp: filter_empty_conv image_iff)

lemma slot_unique_alone:
  assumes "slot_unique tbl" "r \<in> set tbl" "status r = SCHEDULED"
    and "x \<in> set tbl" "status x = SCHEDULED" "slot x = slot r"
  shows "x = r"
proof -
  from assms(1) have "inj_on slot (set (filter (\<lambda>r. status r = SCHEDULED) tbl))"
    unfolding slot_unique_def by (simp only: distinct_map)
  moreover from assms have "r \<in> set (filter (\<lambda>r. status r = SCHEDULED) tbl)"
    "x \<in> set (filter (\<lambda>r. status r = SCHEDULED) tbl)" by simp_all
  ultimately show ?thesis using assms(6) by (meson inj_onD)
qed

lemma modify_row_self: "modify_row (reservation_id r) u now r = (apply_update_data u r)\<lparr>updated_at := now\<rparr>"
  by (simp add: modify_row_def)

text \<open>
  A modify of an existing reservation that supplies a date with a year below 1000 is
  answered 500 and changes nothing, whatever the slot.
\<close>

lemma modify_unreadable_date:
  assumes "r \<in> set tbl" "supplied_date_unreadable u"
  shows "modify_reservation tbl (reservation_id r) u now = (tbl, Inl HTTP_500_INTERNAL_SERVER_ERROR)"
proof -
  from assms(1) obtain x xs
    where "filter (\<lambda>x. reservation_id x = reservation_id r) tbl = x # xs"
    by (cases "filter (\<lambda>x. reservation_id x = reservation_id r) tbl")
       (auto simp: filter_empty_conv)
  with assms(2) show ?thesis by (simp add: modify_reservation_eq)
qed

text \<open>
  C6, as the specification states it, fails for a reservation that is no longer
  scheduled. Ann's booking is created and cancelled, and the slot is booked again under
  key 2. Setting the time of the cancelled reservation to the time it already has is
  answered 409: its own key is excluded from the check, but the new booking in the same
  slot is not.
\<close>

theorem modify_own_slot_counterexample:
  "run [] [Add ann_req 1 ''t0'', Cancel 1 ''t1'', Add ann_req 2 ''t2''] = rebooked
   \<and> ids_unique rebooked
   \<and> resulting_slot retime_updates (rebooked ! 0) = slot (rebooked ! 0)
   \<and> modify_reservation rebooked (reservation_id (rebooked ! 0)) retime_updates ''t3''
       = (rebooked, Inl HTTP_409_CONFLICT)"
  by (simp add: run_evals example_defs ids_unique_def)

text \<open>
  C6, amended. For a reservation in a table with unique keys, a modify whose resulting
  (stylist, date, time) is the reservation's own, and whose date, if it supplies one, has
  a year of four digits, never conflicts with the reservation itself: it is answered 409
  exactly when another reservation, under another key, is scheduled in that slot, and
  succeeds otherwise. In particular it succeeds for every scheduled reservation of a table
  that has at most one scheduled reservation per slot. Nothing is said here of a request
  that supplies a date with a year below 1000.
\<close>

theorem modify_own_slot:
  assumes "ids_unique tbl" "r \<in> set tbl" "resulting_slot u r = slot r"
    and "\<not> supplied_date_unreadable u"
  shows "modify_reservation tbl (reservation_id r) u now =
           (if \<exists>x \<in> set tbl. reservation_id x \<noteq> reservation_id r
                              \<and> status x = SCHEDULED \<and> slot x = slot r
            then (tbl, Inl HTTP_409_CONFLICT)
            else (map (modify_row (reservation_id r) u now) tbl,
                  Inr (modify_row (reservation_id r) u now r)))
       \<and> (status r = SCHEDULED \<and> slot_unique tbl \<longrightarrow>
            modify_reservation tbl (reservation_id r) u now =
              (map (modify_row (reservation_id r) u now) tbl,
               Inr (modify_row (reservation_id r) u now r)))"
proof -
  have first: "modify_reservation tbl (reservation_id r) u now =
           (if \<exists>x \<in> set tbl. reservation_id x \<noteq> reservation_id r
                              \<and> status x = SCHEDULED \<and> slot x = slot r
            then (tbl, Inl HTTP_409_CONFLICT)
            else (map (modify_row (reservation_id r) u now) tbl,
                  Inr (modify_row (reservation_id r) u now r)))"
    using filter_id_single [OF assms(1,2)] assms(3,4)
    by (auto simp: modify_reservation_eq modify_row_self image_iff)
  have "\<not> (\<exists>x \<in> set tbl. reservation_id x \<noteq> reservation_id r
                              \<and> status x = SCHEDULED \<and> slot x = slot r)"
    if "status r = SCHEDULED" "slot_unique tbl"
    using slot_unique_alone [OF that(2) assms(2) that(1)] by blast
  with first show ?thesis by auto
qed

theorem modify_own_slot_witness:
  "ids_unique kim_day \<and> ann_row \<in> set kim_day
   \<and> resulting_slot resave_updates ann_row = slot ann_row
   \<and> \<not> supplied_date_unreadable resave_updates
   \<and> status ann_row = SCHEDULED \<and> slot_unique kim_day
   \<and> modify_reservation kim_day 1 resave_updates ''t5''
       = ([ann_row\<lparr>reservation_id := 2, reservation_time := (11, 0, 0)\<rparr>,
           ann_row\<lparr>updated_at := ''t5''\<rparr>,
           ann_row\<lparr>reservation_id := 3, status := CANCELLED\<rparr>],
          Inr (ann_row\<lparr>updated_at := ''t5''\<rparr>))"
proof -
  have h: "ids_unique kim_day" "ann_row \<in> set kim_day"
    "resulting_slot resave_updates ann_row = slot ann_row"
    "\<not> supplied_date_unreadable resave_updates"
    by (simp_all add: ids_unique_def kim_day_def ann_row_def resulting_slot_def slot_def
        apply_update_data_def resave_updates_def no_updates_def
        supplied_date_unreadable_def date_fromisoformat_strftime_def)
  have s: "status ann_row = SCHEDULED" "slot_unique kim_day"
    by (simp_all add: slot_unique_def slot_def kim_day_def ann_row_def)
  have e: "modify_reservation kim_day 1 resave_updates ''t5''
       = ([ann_row\<lparr>reservation_id := 2, reservation_time := (11, 0, 0)\<rparr>,
           ann_row\<lparr>updated_at := ''t5''\<rparr>,
           ann_row\<lparr>reservation_id := 3, status := CANCELLED\<rparr>],
          Inr (ann_row\<lparr>updated_at := ''t5''\<rparr>))"
    by (simp add: run_evals example_defs)
  from modify_own_slot [OF h, of "''t5''"] h s e show ?thesis
    by simp
qed

section \<open>Sequential runs keep slots unique\<close>

lemma create_ids: "ids_unique tbl \<Longrightarrow> ids_unique (fst (create_reservation tbl req new_id now))"
  by (simp add: create_reservation_eq ids_unique_def reservation_data_simps)

lemma create_slots: "slot_unique tbl \<Longrightarrow> slot_unique (fst (create_reservation tbl req new_id now))"
  by (simp add: create_reservation_eq slot_unique_def reservation_data_simps conflict_none_iff)

lemma cancel_ids: "ids_unique tbl \<Longrightarrow> ids_unique (fst (cancel_reservation tbl rid now))"
  by (simp add: cancel_reservation_eq ids_unique_def cancel_row_id comp_def split: list.splits)

lemma filter_scheduled_cancel:
  "filter (\<lambda>r. status r = SCHEDULED) (map (cancel_row rid now) tbl)
   = filter (\<lambda>r. reservation_id r \<noteq> rid) (filter (\<lambda>r. status r = SCHEDULED) tbl)"
  by (induction tbl) (auto simp: cancel_row_def)

lemma cancel_slots:
  assumes "slot_unique tbl"
  shows "slot_unique (fst (cancel_reservation tbl rid now))"
proof -
  have "distinct (map slot (filter (\<lambda>r. reservation_id r \<noteq> rid)
                              (filter (\<lambda>r. status r = SCHEDULED) tbl)))"
    using assms unfolding slot_unique_def by (rule distinct_map_filter)
  then have "slot_unique (map (cancel_row rid now) tbl)"
    unfolding slot_unique_def filter_scheduled_cancel .
  with assms show ?thesis
    by (simp add: cancel_reservation_eq split: list.splits)
qed

lemma modify_ids: "ids_unique tbl \<Longrightarrow> ids_unique (fst (modify_reservation tbl rid u now))"
  by (simp add: modify_reservation_eq ids_unique_def modify_row_kept comp_def split: list.splits)

lemma modify_row_slot: "reservation_id r = rid \<Longrightarrow> slot (modify_row rid u now r) = resulting_slot u r"
  by (simp add: modify_row_def resulting_slot_def slot_def)

lemma map_modify_split:
  assumes "rid \<notin> reservation_id ` set pre" "rid \<notin> reservation_id ` set post" "reservation_id r = rid"
  shows "map (modify_row rid u now) (pre @ r # post) = pre @ modify_row rid u now r # post"
proof -
  have "map (modify_row rid u now) pre = pre" "map (modify_row rid u now) post = post"
    using assms(1,2) by (auto intro!: map_idI simp: modify_row_other image_iff)
  then show ?thesis by simp
qed

lemma modify_slots:
  assumes "ids_unique tbl" "slot_unique tbl"
  shows "slot_unique (fst (modify_reservation tbl rid u now))"
proof (cases "filter (\<lambda>r. reservation_id r = rid) tbl")
  case Nil
  with assms(2) show ?thesis by (simp add: modify_reservation_eq)
next
  case (Cons r rs)
  then have "r \<in> set (filter (\<lambda>r. reservation_id r = rid) tbl)" by simp
  then have r: "r \<in> set tbl" "reservation_id r = rid" by simp_all
  show ?thesis
  proof (cases "supplied_date_unreadable u
               \<or> resulting_slot u r
               \<in> slot ` {x \<in> set tbl. status x = SCHEDULED \<and> reservation_id x \<noteq> rid}")
    case True
    with Cons assms(2) show ?thesis by (auto simp: modify_reservation_eq)
  next
    case no: False
    then have False: "resulting_slot u r
               \<notin> slot ` {x \<in> set tbl. status x = SCHEDULED \<and> reservation_id x \<noteq> rid}"
      and ok: "\<not> supplied_date_unreadable u"
      by blast+
    from r(1) obtain pre post where tbl: "tbl = pre @ r # post" by (auto dest: split_list)
    from assms(1) have out: "rid \<notin> reservation_id ` set pre" "rid \<notin> reservation_id ` set post"
      unfolding ids_unique_def tbl using r(2) by auto
    have new: "fst (modify_reservation tbl rid u now) = pre @ modify_row rid u now r # post"
      using Cons False ok map_modify_split [OF out r(2)]
      by (simp add: modify_reservation_eq tbl [symmetric])
    have free: "resulting_slot u r \<notin> slot ` {x \<in> set pre. status x = SCHEDULED}"
      "resulting_slot u r \<notin> slot ` {x \<in> set post. status x = SCHEDULED}"
      using False out unfolding tbl by (auto simp: image_iff)
    from assms(2) have old: "distinct (map slot (filter (\<lambda>r. status r = SCHEDULED) pre))"
      "distinct (map slot (filter (\<lambda>r. status r = SCHEDULED) post))"
      "slot ` {x \<in> set pre. status x = SCHEDULED} \<inter> slot ` {x \<in> set post. status x = SCHEDULED} = {}"
      unfolding slot_unique_def tbl by (auto split: if_splits)
    show ?thesis
      unfolding new slot_unique_def
      using old free by (auto simp: modify_row_slot [OF r(2)] modify_row_kept)
  qed
qed

lemma distinct_count_le_1:
  "distinct (map f xs) \<longleftrightarrow> (\<forall>k. length (filter (\<lambda>x. f x = k) xs) \<le> 1)"
proof (induction xs)
  case Nil
  then show ?case by simp
next
  case (Cons a xs)
  show ?case
  proof
    assume d: "distinct (map f (a # xs))"
    then have "f a \<notin> f ` set xs" and "\<forall>k. length (filter (\<lambda>x. f x = k) xs) \<le> 1"
      using Cons.IH by simp_all
    moreover have "filter (\<lambda>x. f x = f a) xs = []"
      using \<open>f a \<notin> f ` set xs\<close> by (force simp: filter_empty_conv image_iff)
    ultimately show "\<forall>k. length (filter (\<lambda>x. f x = k) (a # xs)) \<le> 1" by simp
  next
    assume c: "\<forall>k. length (filter (\<lambda>x. f x = k) (a # xs)) \<le> 1"
    have "length (filter (\<lambda>x. f x = k) xs) \<le> 1" for k
      using c [rule_format, of k] by (simp split: if_splits)
    then have dx: "distinct (map f xs)" using Cons.IH by simp
    from c [rule_format, of "f a"] have "filter (\<lambda>x. f x = f a) xs = []" by simp
    then have "f a \<notin> f ` set xs" by (force simp: filter_empty_conv image_iff)
    with dx show "distinct (map f (a # xs))" by simp
  qed
qed

lemma scheduled_at_slot:
  "scheduled_at tbl st d t
   = filter (\<lambda>r. slot r = (st, d, t)) (filter (\<lambda>r. status r = SCHEDULED) tbl)"
  by (simp add: scheduled_at_def slot_def conj_commute conj_left_commute cong: conj_cong)

lemma slot_unique_iff:
  "slot_unique tbl \<longleftrightarrow> (\<forall>st d t. length (scheduled_at tbl st d t) \<le> 1)"
  unfolding slot_unique_def distinct_count_le_1 scheduled_at_slot by auto

lemma handle_preserves:
  "ids_unique tbl \<Longrightarrow> slot_unique tbl
   \<Longrightarrow> ids_unique (handle tbl rq) \<and> slot_unique (handle tbl rq)"
  by (cases rq)
     (simp_all add: create_ids create_slots modify_ids modify_slots cancel_ids cancel_slots)

lemma run_preserves:
  "ids_unique tbl \<Longrightarrow> slot_unique tbl
   \<Longrightarrow> ids_unique (run tbl rqs) \<and> slot_unique (run tbl rqs)"
proof (induction rqs arbitrary: tbl)
  case Nil
  then show ?case by simp
next
  case (Cons rq rqs)
  from handle_preserves [OF Cons.prems]
  have "ids_unique (handle tbl rq)" "slot_unique (handle tbl rq)" by simp_all
  from Cons.IH [OF this] show ?case by simp
qed

text \<open>
  C1. Requests handled one after the other keep the table's keys unique and keep at most
  one scheduled reservation per (stylist, date, time), from any table that has both
  properties, the empty one included: create appends a scheduled row only when the check
  found no scheduled row in its slot, modify rewrites the row under the key only when the
  check found no scheduled row under another key in the resulting slot, and cancel only
  turns rows to \<open>cancelled\<close>.
\<close>

theorem sequential_slots_unique:
  assumes "ids_unique tbl" "\<forall>st d t. length (scheduled_at tbl st d t) \<le> 1"
  shows "ids_unique (handle tbl rq)
       \<and> (\<forall>st d t. length (scheduled_at (handle tbl rq) st d t) \<le> 1)
       \<and> ids_unique (run tbl rqs)
       \<and> (\<forall>st d t. length (scheduled_at (run tbl rqs) st d t) \<le> 1)"
  using assms handle_preserves [of tbl rq] run_preserves [of tbl rqs]
  unfolding slot_unique_iff [symmetric] by simp

theorem sequential_slots_unique_witness:
  "ids_unique [] \<and> (\<forall>st d t. length (scheduled_at [] st d t) \<le> 1)
   \<and> handle [] (Add ann_req 1 ''t0'') = [ann_row]
   \<and> run [] busy_morning
       = [ann_row\<lparr>status := CANCELLED, updated_at := ''t1''\<rparr>,
          ann_row\<lparr>reservation_id := 2, created_at := ''t2'', updated_at := ''t3''\<rparr>]
   \<and> (\<forall>st d t. length (scheduled_at (run [] busy_morning) st d t) \<le> 1)"
proof -
  have h: "ids_unique []" "\<forall>st d t. length (scheduled_at [] st d t) \<le> 1"
    by (simp_all add: ids_unique_def scheduled_at_def)
  have r: "run [] busy_morning
       = [ann_row\<lparr>status := CANCELLED, updated_at := ''t1''\<rparr>,
          ann_row\<lparr>reservation_id := 2, created_at := ''t2'', updated_at := ''t3''\<rparr>]"
    "handle [] (Add ann_req 1 ''t0'') = [ann_row]"
    by (simp_all add: busy_morning_def run_evals example_defs)
  from sequential_slots_unique [OF h, of "Add ann_req 1 ''t0''" busy_morning] h r
  show ?thesis by simp
qed

end
